theory Spec2Isabelle
  imports Complex_Main
begin

section \<open>Data model\<close>

text \<open>
  The add-in exchanges matrices with the host as \<open>_FP12\<close> values: a row count, a column
  count and a flat buffer of doubles in row-major order. Inside an operation a matrix is
  an Eigen \<open>MatrixXd\<close>, whose storage is column-major. Both are modelled with their
  storage written out as a list, so that the two storage orders really differ.

  The entries are IEEE doubles in the program. They are kept abstract here (a type
  variable): the code under study copies entries, writes the constants \<open>0.0\<close> and
  \<open>1.0\<close>, and in a few places adds, subtracts, multiplies, divides and compares them;
  every other piece of arithmetic happens inside Eigen's numerical routines, which the
  operations below take as parameters. Sizes are natural numbers: the host never passes
  a negative size. Where an operation computes with sizes in the C++ type \<open>int\<close>, as the
  full singular value decomposition does, the model computes in that type too.
\<close>

record 'a FP12 =
  rows :: nat
  columns :: nat
  array :: "'a list"

record 'a MatrixXd =
  m_rows :: nat
  m_cols :: nat
  m_storage :: "'a list"

type_synonym 'a VectorXd = "'a list"

text \<open>Eigen's class invariant: the storage holds exactly \<open>rows * cols\<close> coefficients.\<close>

definition wf_matrix :: "'a MatrixXd \<Rightarrow> bool" where
  "wf_matrix M = (length (m_storage M) = m_rows M * m_cols M)"

text \<open>The host's invariant on an array it passes: the buffer holds \<open>rows * columns\<close> doubles.\<close>

definition wf_fp :: "'a FP12 \<Rightarrow> bool" where
  "wf_fp fp = (length (array fp) = rows fp * columns fp)"

text \<open>\<open>M(i, j)\<close> on a column-major matrix.\<close>

definition coeff :: "'a MatrixXd \<Rightarrow> nat \<Rightarrow> nat \<Rightarrow> 'a" where
  "coeff M i j = m_storage M ! (j * m_rows M + i)"

text \<open>
  Eigen's dense assignment into a fresh column-major matrix of \<open>r\<close> rows and \<open>c\<close>
  columns: the outer loop runs over the columns, the inner one over the rows, and the
  destination receives \<open>src(i, j)\<close> at \<open>(i, j)\<close>.
\<close>

definition dense :: "nat \<Rightarrow> nat \<Rightarrow> (nat \<Rightarrow> nat \<Rightarrow> 'a) \<Rightarrow> 'a MatrixXd" where
  "dense r c src =
     \<lparr>m_rows = r, m_cols = c,
      m_storage = concat (map (\<lambda>j. map (\<lambda>i. src i j) [0..<r]) [0..<c])\<rparr>"

section \<open>Layout adapter\<close>

text \<open>
  \<open>fp_to_eigen\<close> maps the buffer as a row-major \<open>rows \<times> columns\<close> matrix and copies it
  into a \<open>MatrixXd\<close>.
\<close>

definition fp_to_eigen :: "'a FP12 \<Rightarrow> 'a MatrixXd" where
  "fp_to_eigen fp =
     dense (rows fp) (columns fp) (\<lambda>i j. array fp ! (i * columns fp + j))"

text \<open>
  \<open>eigen_to_fp\<close> resizes the output slot to the matrix's shape and assigns the matrix
  to a row-major map of the slot's buffer: entry \<open>(i, j)\<close> lands at \<open>i * cols + j\<close>.
  The slot is a static object of the function; what is modelled is its content when the
  function returns, which is what the caller reads through the returned pointer.
\<close>

definition eigen_to_fp :: "'a MatrixXd \<Rightarrow> 'a FP12" where
  "eigen_to_fp mat =
     \<lparr>rows = m_rows mat, columns = m_cols mat,
      array = concat (map (\<lambda>i. map (\<lambda>j. coeff mat i j) [0..<m_cols mat]) [0..<m_rows mat])\<rparr>"

text \<open>\<open>vector_to_fp\<close>: a vector becomes a \<open>size \<times> 1\<close> array, filled entry by entry.\<close>

definition vector_to_fp :: "'a VectorXd \<Rightarrow> 'a FP12" where
  "vector_to_fp vec =
     \<lparr>rows = length vec, columns = 1, array = map (\<lambda>i. vec ! i) [0..<length vec]\<rparr>"

text \<open>Entry \<open>(i, j)\<close> of an external array, row-major.\<close>

definition fp_at :: "'a FP12 \<Rightarrow> nat \<Rightarrow> nat \<Rightarrow> 'a" where
  "fp_at fp i j = array fp ! (i * columns fp + j)"

section \<open>Eigen's views and constant matrices\<close>

text \<open>
  The expressions of Eigen that the operations use to move coefficients around. None of
  them computes with the coefficients; some write the constants zero and one.
\<close>

definition Identity :: "nat \<Rightarrow> nat \<Rightarrow> 'a::{zero,one} MatrixXd" where
  "Identity r c = dense r c (\<lambda>i j. if i = j then 1 else 0)"

definition Zero :: "nat \<Rightarrow> nat \<Rightarrow> 'a::zero MatrixXd" where
  "Zero r c = dense r c (\<lambda>i j. 0)"

definition col :: "'a MatrixXd \<Rightarrow> nat \<Rightarrow> 'a VectorXd" where
  "col M j = map (\<lambda>i. coeff M i j) [0..<m_rows M]"

definition diagonal :: "'a MatrixXd \<Rightarrow> 'a VectorXd" where
  "diagonal M = map (\<lambda>i. coeff M i i) [0..<min (m_rows M) (m_cols M)]"

definition asDiagonal :: "'a::zero VectorXd \<Rightarrow> 'a MatrixXd" where
  "asDiagonal v = dense (length v) (length v) (\<lambda>i j. if i = j then v ! i else 0)"

definition transpose_m :: "'a MatrixXd \<Rightarrow> 'a MatrixXd" where
  "transpose_m M = dense (m_cols M) (m_rows M) (\<lambda>i j. coeff M j i)"

text \<open>
  Assigning a triangular view to a dense matrix copies the selected triangle (diagonal
  included) and writes zero everywhere else. The matrix need not be square.
\<close>

definition triangularView_Upper :: "'a::zero MatrixXd \<Rightarrow> 'a MatrixXd" where
  "triangularView_Upper M =
     dense (m_rows M) (m_cols M) (\<lambda>i j. if i \<le> j then coeff M i j else 0)"

definition triangularView_Lower :: "'a::zero MatrixXd \<Rightarrow> 'a MatrixXd" where
  "triangularView_Lower M =
     dense (m_rows M) (m_cols M) (\<lambda>i j. if j \<le> i then coeff M i j else 0)"

text \<open>A matrix times a diagonal wrapper scales column \<open>j\<close> by the \<open>j\<close>-th diagonal entry.\<close>

definition times_diagonal :: "'a::times MatrixXd \<Rightarrow> 'a VectorXd \<Rightarrow> 'a MatrixXd" where
  "times_diagonal M d = dense (m_rows M) (length d) (\<lambda>i j. coeff M i j * d ! j)"

text \<open>
  The larger of two scalars as Eigen takes it, and the largest coefficient of a vector.
  Eigen requires the vector to be non-empty; the model has no value for an empty one.
\<close>

definition maxi :: "'a::ord \<Rightarrow> 'a \<Rightarrow> 'a" where
  "maxi a b = (if a < b then b else a)"

fun maxCoeff :: "'a::ord VectorXd \<Rightarrow> 'a option" where
  "maxCoeff [] = None"
| "maxCoeff (x # xs) = Some (foldl maxi x xs)"

section \<open>The numerical routines\<close>

text \<open>
  The factorizations, the inverse, the solvers, the norm, the rank and the matrix product
  are Eigen's. They compute in floating point, and the operations of this library only
  shape their inputs and results; each operation below takes the routine it calls as a
  parameter. The routines are total functions: Eigen reports a failed factorization
  through \<open>info()\<close> and raises nothing but a failed allocation, and exhausting the memory
  is outside this model. So the handler that every operation puts around its body, which
  turns any exception into the failure value, has no branch here.
\<close>

datatype ComputationInfo = Success | NumericalIssue | NoConvergence | InvalidInput


text \<open>The object Eigen returns for a thin singular value decomposition.\<close>

record 'a JacobiSVD =
  matrixU :: "'a MatrixXd"
  singularValues :: "'a VectorXd"
  matrixV :: "'a MatrixXd"

text \<open>
  What a thin decomposition of an \<open>m \<times> n\<close> matrix has, with \<open>k = min m n\<close>: \<open>U\<close> is
  \<open>m \<times> k\<close>, there are \<open>k\<close> singular values, and \<open>V\<close> is \<open>n \<times> k\<close>.
\<close>

definition thin_svd_shape :: "'a MatrixXd \<Rightarrow> 'a JacobiSVD \<Rightarrow> bool" where
  "thin_svd_shape A svd =
     (let k = min (m_rows A) (m_cols A) in
        wf_matrix (matrixU svd) \<and> m_rows (matrixU svd) = m_rows A \<and> m_cols (matrixU svd) = k \<and>
        length (singularValues svd) = k \<and>
        wf_matrix (matrixV svd) \<and> m_rows (matrixV svd) = m_cols A \<and> m_cols (matrixV svd) = k)"

section \<open>Arithmetic and transpose\<close>







section \<open>Scalar reductions\<close>










section \<open>Decompositions\<close>



definition xll_matrix_qr :: "('a MatrixXd \<Rightarrow> 'a MatrixXd) \<Rightarrow> 'a::zero FP12 \<Rightarrow> 'a FP12 option" where
  "xll_matrix_qr matrixQR pa =
     (let A = fp_to_eigen pa;
          R = triangularView_Upper (matrixQR A)
      in Some (eigen_to_fp R))"



subsection \<open>Full singular value decomposition\<close>









subsection \<open>Eigenvalues and eigenvectors\<close>




section \<open>Solvers\<close>

definition xll_matrix_solve ::
  "('a MatrixXd \<Rightarrow> 'a MatrixXd \<Rightarrow> 'a MatrixXd) \<Rightarrow> 'a FP12 \<Rightarrow> 'a FP12 \<Rightarrow> 'a FP12 option" where
  "xll_matrix_solve lu_solve pa pb =
     (let A = fp_to_eigen pa;
          b = fp_to_eigen pb
      in if m_rows A \<noteq> m_cols A \<or> m_rows A \<noteq> m_rows b then None
         else let x = lu_solve A b in Some (eigen_to_fp x))"


text \<open>
  The loop of the pseudoinverse over the singular values: a value above the tolerance is
  replaced by its reciprocal, any other by zero.
\<close>

definition singularValuesInv :: "'a::{zero,one,inverse,ord} \<Rightarrow> 'a VectorXd \<Rightarrow> 'a VectorXd" where
  "singularValuesInv tolerance sv =
     map (\<lambda>i. if sv ! i > tolerance then 1 / sv ! i else 0) [0..<length sv]"

text \<open>
  \<open>epsilon\<close> is the machine epsilon of the doubles and \<open>of_Index\<close> the conversion of a
  size to a double; \<open>product\<close> is Eigen's matrix product. The matrices are real, so the
  adjoint of \<open>U\<close> is its transpose. A matrix without entries, which the host never
  passes, has no singular values and so no largest one; the model returns no result for
  it.
\<close>

definition xll_matrix_pinv ::
  "'a \<Rightarrow> (nat \<Rightarrow> 'a) \<Rightarrow> ('a MatrixXd \<Rightarrow> 'a JacobiSVD) \<Rightarrow>
   ('a MatrixXd \<Rightarrow> 'a MatrixXd \<Rightarrow> 'a MatrixXd) \<Rightarrow>
   'a::{zero,one,times,inverse,ord,abs} FP12 \<Rightarrow> 'a FP12 option" where
  "xll_matrix_pinv epsilon of_Index jacobiSvd product pa =
     (let A = fp_to_eigen pa;
          svd = jacobiSvd A;
          max_dim = max (m_rows A) (m_cols A)
      in case maxCoeff (map abs (singularValues svd)) of
           None \<Rightarrow> None
         | Some max_sv \<Rightarrow>
             let tolerance = epsilon * of_Index max_dim * max_sv;
                 sinv = singularValuesInv tolerance (singularValues svd);
                 Ainv = product (times_diagonal (matrixV svd) sinv) (transpose_m (matrixU svd))
             in Some (eigen_to_fp Ainv))"

text \<open>
  The pseudoinverse as the specification words it, for comparison with the code: a
  singular value below the tolerance becomes zero, every other one its reciprocal.
\<close>

definition singularValuesInv_spec :: "'a::{zero,one,inverse,ord} \<Rightarrow> 'a VectorXd \<Rightarrow> 'a VectorXd" where
  "singularValuesInv_spec tolerance sv = map (\<lambda>s. if s < tolerance then 0 else 1 / s) sv"

definition pinv_spec ::
  "'a \<Rightarrow> (nat \<Rightarrow> 'a) \<Rightarrow> ('a MatrixXd \<Rightarrow> 'a JacobiSVD) \<Rightarrow>
   ('a MatrixXd \<Rightarrow> 'a MatrixXd \<Rightarrow> 'a MatrixXd) \<Rightarrow>
   'a::{zero,one,times,inverse,ord,abs} FP12 \<Rightarrow> 'a FP12 option" where
  "pinv_spec epsilon of_Index jacobiSvd product pa =
     (let A = fp_to_eigen pa;
          svd = jacobiSvd A
      in case maxCoeff (map abs (singularValues svd)) of
           None \<Rightarrow> None
         | Some max_sv \<Rightarrow>
             let tolerance = epsilon * of_Index (max (m_rows A) (m_cols A)) * max_sv;
                 sinv = singularValuesInv_spec tolerance (singularValues svd)
             in Some (eigen_to_fp
                  (product (times_diagonal (matrixV svd) sinv) (transpose_m (matrixU svd)))))"

section \<open>Generators and the diagonal\<close>

text \<open>
  A scalar argument is a double; a finite double is a real number, and converting it to
  \<open>int\<close> drops its fractional part. (The conversion of a double outside the range of
  \<open>int\<close>, or of a NaN, is undefined in C++; the model covers the finite doubles and does
  not cut the integer to 32 bits.)
\<close>

definition static_cast_int :: "real \<Rightarrow> int" where
  "static_cast_int x = (if 0 \<le> x then \<lfloor>x\<rfloor> else \<lceil>x\<rceil>)"

definition xll_matrix_identity :: "real \<Rightarrow> 'a::{zero,one} FP12 option" where
  "xll_matrix_identity n =
     (let dim = static_cast_int n in
      if dim \<le> 0 \<or> dim > 10000 then None
      else let I = Identity (nat dim) (nat dim) in Some (eigen_to_fp I))"

definition xll_matrix_zeros :: "real \<Rightarrow> real \<Rightarrow> 'a::zero FP12 option" where
  "xll_matrix_zeros m n =
     (let rows = static_cast_int m;
          cols = static_cast_int n
      in if rows \<le> 0 \<or> cols \<le> 0 \<or> rows > 10000 \<or> cols > 10000 then None
         else let Z = Zero (nat rows) (nat cols) in Some (eigen_to_fp Z))"

definition xll_matrix_diag :: "'a::zero FP12 \<Rightarrow> 'a FP12 option" where
  "xll_matrix_diag pa =
     (let A = fp_to_eigen pa in
      if m_cols A = 1 then
        let v = col A 0;
            D = asDiagonal v
        in Some (eigen_to_fp D)
      else
        let d = diagonal A in Some (vector_to_fp d))"

section \<open>Equality within a tolerance\<close>


section \<open>Exact stand-ins for the numerical routines\<close>

text \<open>
  To evaluate the operations on concrete inputs, the routines are instantiated with
  exact arithmetic on matrices for which the answer is plain: a diagonal matrix has its
  diagonal entries as singular values (when they are non-negative and descending) with
  identity factors, and the reciprocals of its diagonal entries as the diagonal of its
  inverse. In HOL the reciprocal of zero is zero, where IEEE arithmetic has an infinity;
  no theorem below depends on the value computed there.
\<close>

definition exact_product :: "'a::semiring_0 MatrixXd \<Rightarrow> 'a MatrixXd \<Rightarrow> 'a MatrixXd" where
  "exact_product A B =
     dense (m_rows A) (m_cols B)
       (\<lambda>i j. sum_list (map (\<lambda>l. coeff A i l * coeff B l j) [0..<m_cols A]))"

definition svd_of_diagonal :: "'a::{zero,one} MatrixXd \<Rightarrow> 'a JacobiSVD" where
  "svd_of_diagonal A =
     (let k = min (m_rows A) (m_cols A) in
      \<lparr>matrixU = Identity (m_rows A) k, singularValues = diagonal A,
       matrixV = Identity (m_cols A) k\<rparr>)"



section \<open>What Eigen promises for an invertible and for a positive-definite matrix\<close>






section \<open>Facts about the two storage orders\<close>

lemma length_concat_grid:
  "length (concat (map (\<lambda>a. map (g a) [0..<n]) [0..<m])) = m * n"
  by (induction m) simp_all

lemma grid_index_less:
  fixes a b m n :: nat
  assumes "a < m" and "b < n"
  shows "a * n + b < m * n"
proof -
  have "a * n + b < a * n + n" using assms(2) by simp
  also have "\<dots> = Suc a * n" by simp
  also have "\<dots> \<le> m * n" using assms(1) by (intro mult_le_mono1) simp
  finally show ?thesis .
qed

lemma nth_concat_grid:
  assumes "a < m" and "b < n"
  shows "concat (map (\<lambda>a. map (g a) [0..<n]) [0..<m]) ! (a * n + b) = g a b"
  using assms
proof (induction m)
  case 0
  then show ?case by simp
next
  case (Suc m)
  let ?pre = "concat (map (\<lambda>a. map (g a) [0..<n]) [0..<m])"
  have len: "length ?pre = m * n" by (rule length_concat_grid)
  show ?case
  proof (cases "a < m")
    case True
    then have "a * n + b < m * n"
      using Suc.prems(2) by (rule grid_index_less)
    with True Suc show ?thesis by (simp add: nth_append len)
  next
    case False
    with Suc.prems have "a = m" by simp
    with Suc.prems show ?thesis by (simp add: nth_append len)
  qed
qed

lemma wf_dense: "wf_matrix (dense r c src)"
  by (simp add: wf_matrix_def dense_def length_concat_grid mult.commute)

lemma dense_shape: "m_rows (dense r c src) = r" "m_cols (dense r c src) = c"
  by (simp_all add: dense_def)

lemma coeff_dense:
  assumes "i < r" and "j < c"
  shows "coeff (dense r c src) i j = src i j"
  using nth_concat_grid [OF assms(2) assms(1), of "\<lambda>j i. src i j"]
  by (simp add: coeff_def dense_def)

lemma dense_cong:
  assumes "\<And>i j. i < r \<Longrightarrow> j < c \<Longrightarrow> f i j = g i j"
  shows "dense r c f = dense r c g"
proof -
  have "map (\<lambda>j. map (\<lambda>i. f i j) [0..<r]) [0..<c] = map (\<lambda>j. map (\<lambda>i. g i j) [0..<r]) [0..<c]"
    by (auto simp: assms)
  then show ?thesis by (simp only: dense_def)
qed

lemma dense_coeff:
  assumes "wf_matrix M"
  shows "dense (m_rows M) (m_cols M) (coeff M) = M"
proof -
  let ?r = "m_rows M" and ?c = "m_cols M"
  let ?g = "concat (map (\<lambda>j. map (\<lambda>i. coeff M i j) [0..<?r]) [0..<?c])"
  have len: "length ?g = length (m_storage M)"
    using assms by (simp add: length_concat_grid wf_matrix_def mult.commute)
  have "?g ! k = m_storage M ! k" if k: "k < length ?g" for k
  proof -
    from k have kb: "k < ?c * ?r" by (simp add: length_concat_grid)
    then have rpos: "0 < ?r" by (cases "?r") simp_all
    have d: "k div ?r < ?c" using kb rpos by (simp add: less_mult_imp_div_less)
    have m: "k mod ?r < ?r" using rpos by simp
    have "?g ! (k div ?r * ?r + k mod ?r) = coeff M (k mod ?r) (k div ?r)"
      using nth_concat_grid [OF d m, of "\<lambda>j i. coeff M i j"] by simp
    then show ?thesis by (simp add: coeff_def)
  qed
  with len have "?g = m_storage M" by (rule nth_equalityI)
  then show ?thesis by (simp add: dense_def)
qed

lemma fp_at_eigen_to_fp:
  assumes "i < m_rows mat" and "j < m_cols mat"
  shows "fp_at (eigen_to_fp mat) i j = coeff mat i j"
  using nth_concat_grid [OF assms, of "\<lambda>i j. coeff mat i j"]
  by (simp add: fp_at_def eigen_to_fp_def)

lemma eigen_to_fp_shape:
  "rows (eigen_to_fp mat) = m_rows mat" "columns (eigen_to_fp mat) = m_cols mat"
  by (simp_all add: eigen_to_fp_def)

lemma wf_eigen_to_fp: "wf_fp (eigen_to_fp mat)"
  by (simp add: wf_fp_def eigen_to_fp_def length_concat_grid)

lemma coeff_fp_to_eigen:
  assumes "i < rows fp" and "j < columns fp"
  shows "coeff (fp_to_eigen fp) i j = array fp ! (i * columns fp + j)"
  using assms by (simp add: fp_to_eigen_def coeff_dense)

lemma fp_to_eigen_shape:
  "m_rows (fp_to_eigen fp) = rows fp" "m_cols (fp_to_eigen fp) = columns fp"
  by (simp_all add: fp_to_eigen_def dense_shape)

lemma wf_fp_to_eigen: "wf_matrix (fp_to_eigen fp)"
  by (simp add: fp_to_eigen_def wf_dense)

lemma fp_to_eigen_eigen_to_fp:
  assumes "wf_matrix M"
  shows "fp_to_eigen (eigen_to_fp M) = M"
proof -
  have "fp_to_eigen (eigen_to_fp M) =
        dense (m_rows M) (m_cols M) (\<lambda>i j. fp_at (eigen_to_fp M) i j)"
    by (simp add: fp_to_eigen_def eigen_to_fp_shape fp_at_def)
  also have "\<dots> = dense (m_rows M) (m_cols M) (coeff M)"
    by (rule dense_cong) (rule fp_at_eigen_to_fp)
  also have "\<dots> = M" using assms by (rule dense_coeff)
  finally show ?thesis .
qed

section \<open>The layout adapter is faithful\<close>

text \<open>
  Claim C2. Writing a matrix to the external row-major array and reading it back gives
  the same matrix, storage included; and the matrix read from an external array has at
  \<open>(i, j)\<close> the buffer's element \<open>i * cols + j\<close>, for every row \<open>i\<close> and column \<open>j\<close>
  of the array, although the matrix itself is stored column by column.
\<close>

theorem layout_adapter_faithful:
  "(wf_matrix M \<longrightarrow> fp_to_eigen (eigen_to_fp M) = M) \<and>
   (\<forall>i j. i < rows fp \<and> j < columns fp \<longrightarrow>
      coeff (fp_to_eigen fp) i j = array fp ! (i * columns fp + j))"
  by (simp add: fp_to_eigen_eigen_to_fp coeff_fp_to_eigen)

theorem layout_adapter_faithful_witness:
  "wf_matrix \<lparr>m_rows = 2, m_cols = 3, m_storage = [1, 4, 2, 5, 3, 6 :: int]\<rparr> \<and>
   eigen_to_fp \<lparr>m_rows = 2, m_cols = 3, m_storage = [1, 4, 2, 5, 3, 6 :: int]\<rparr> =
     \<lparr>rows = 2, columns = 3, array = [1, 2, 3, 4, 5, 6]\<rparr> \<and>
   fp_to_eigen \<lparr>rows = 2, columns = 3, array = [1, 2, 3, 4, 5, 6 :: int]\<rparr> =
     \<lparr>m_rows = 2, m_cols = 3, m_storage = [1, 4, 2, 5, 3, 6]\<rparr> \<and>
   coeff (fp_to_eigen \<lparr>rows = 2, columns = 3, array = [1, 2, 3, 4, 5, 6 :: int]\<rparr>) 1 2 = 6"
proof -
  let ?M = "\<lparr>m_rows = 2, m_cols = 3, m_storage = [1, 4, 2, 5, 3, 6 :: int]\<rparr>"
  let ?fp = "\<lparr>rows = 2, columns = 3, array = [1, 2, 3, 4, 5, 6 :: int]\<rparr>"
  have wf: "wf_matrix ?M" by (simp add: wf_matrix_def)
  have out: "eigen_to_fp ?M = ?fp"
    by (simp add: eigen_to_fp_def coeff_def upt_rec)
  from layout_adapter_faithful [of ?M ?fp] wf
  have again: "fp_to_eigen (eigen_to_fp ?M) = ?M"
    and entry: "coeff (fp_to_eigen ?fp) 1 2 = array ?fp ! (1 * columns ?fp + 2)"
    by simp_all
  from again out have "fp_to_eigen ?fp = ?M" by simp
  moreover from entry have "coeff (fp_to_eigen ?fp) 1 2 = 6" by simp
  ultimately show ?thesis using wf out by simp
qed

section \<open>Facts about the views\<close>

lemma coeff_Identity:
  "i < r \<Longrightarrow> j < c \<Longrightarrow> coeff (Identity r c) i j = (if i = j then 1 else 0)"
  by (simp add: Identity_def coeff_dense)

lemma coeff_Zero: "i < r \<Longrightarrow> j < c \<Longrightarrow> coeff (Zero r c) i j = 0"
  by (simp add: Zero_def coeff_dense)

lemma coeff_asDiagonal:
  "i < length v \<Longrightarrow> j < length v \<Longrightarrow> coeff (asDiagonal v) i j = (if i = j then v ! i else 0)"
  by (simp add: asDiagonal_def coeff_dense)

lemma coeff_transpose_m:
  "i < m_cols M \<Longrightarrow> j < m_rows M \<Longrightarrow> coeff (transpose_m M) i j = coeff M j i"
  by (simp add: transpose_m_def coeff_dense)

lemma coeff_triangularView_Upper:
  "i < m_rows M \<Longrightarrow> j < m_cols M \<Longrightarrow>
   coeff (triangularView_Upper M) i j = (if i \<le> j then coeff M i j else 0)"
  by (simp add: triangularView_Upper_def coeff_dense)


lemma view_shapes:
  "m_rows (Identity r c) = r" "m_cols (Identity r c) = c"
  "m_rows (Zero r c) = r" "m_cols (Zero r c) = c"
  "m_rows (asDiagonal v) = length v" "m_cols (asDiagonal v) = length v"
  "m_rows (transpose_m M) = m_cols M" "m_cols (transpose_m M) = m_rows M"
  "m_rows (triangularView_Upper N) = m_rows N" "m_cols (triangularView_Upper N) = m_cols N"
  "m_rows (triangularView_Lower N) = m_rows N" "m_cols (triangularView_Lower N) = m_cols N"
  by (simp_all add: Identity_def Zero_def asDiagonal_def transpose_m_def
      triangularView_Upper_def triangularView_Lower_def dense_shape)

lemma view_wf:
  "wf_matrix (Identity r c)" "wf_matrix (Zero r c)" "wf_matrix (asDiagonal v)"
  "wf_matrix (transpose_m M)" "wf_matrix (triangularView_Upper N)"
  "wf_matrix (triangularView_Lower N)"
  by (simp_all add: Identity_def Zero_def asDiagonal_def transpose_m_def
      triangularView_Upper_def triangularView_Lower_def wf_dense)

section \<open>Reading a result back\<close>





section \<open>Inverse\<close>




section \<open>Solve\<close>

text \<open>
  Claim C3. The solve operation returns the failure value exactly when the coefficient
  matrix is not square or its row count differs from that of the right-hand side. In
  every other case, whether or not the coefficient matrix is singular, it returns what
  the solve step of Eigen's LU factorization gives: no other check is made.
\<close>

theorem solve_fails_iff_shape_mismatch:
  "(xll_matrix_solve lu_solve pa pb = None \<longleftrightarrow>
      rows pa \<noteq> columns pa \<or> rows pa \<noteq> rows pb) \<and>
   (rows pa = columns pa \<and> rows pa = rows pb \<longrightarrow>
      xll_matrix_solve lu_solve pa pb =
        Some (eigen_to_fp (lu_solve (fp_to_eigen pa) (fp_to_eigen pb))))"
  by (simp add: xll_matrix_solve_def fp_to_eigen_shape)

theorem solve_fails_iff_shape_mismatch_witness:
  "\<forall>lu_solve :: real MatrixXd \<Rightarrow> real MatrixXd \<Rightarrow> real MatrixXd.
     xll_matrix_solve lu_solve
       \<lparr>rows = 3, columns = 3, array = [1, 0, 0, 0, 1, 0, 0, 0, 1]\<rparr>
       \<lparr>rows = 4, columns = 1, array = [1, 2, 3, 4]\<rparr> = None \<and>
     xll_matrix_solve lu_solve
       \<lparr>rows = 2, columns = 3, array = [1, 0, 0, 0, 1, 0]\<rparr>
       \<lparr>rows = 2, columns = 1, array = [1, 2]\<rparr> = None \<and>
     xll_matrix_solve lu_solve
       \<lparr>rows = 2, columns = 2, array = [1, 2, 2, 4]\<rparr>
       \<lparr>rows = 2, columns = 1, array = [1, 2]\<rparr> =
       Some (eigen_to_fp (lu_solve
         \<lparr>m_rows = 2, m_cols = 2, m_storage = [1, 2, 2, 4]\<rparr>
         \<lparr>m_rows = 2, m_cols = 1, m_storage = [1, 2]\<rparr>))"
proof (intro allI conjI)
  fix lu_solve :: "real MatrixXd \<Rightarrow> real MatrixXd \<Rightarrow> real MatrixXd"
  let ?I3 = "\<lparr>rows = 3, columns = 3, array = [1, 0, 0, 0, 1, 0, 0, 0, 1 :: real]\<rparr>"
  let ?b4 = "\<lparr>rows = 4, columns = 1, array = [1, 2, 3, 4 :: real]\<rparr>"
  let ?A23 = "\<lparr>rows = 2, columns = 3, array = [1, 0, 0, 0, 1, 0 :: real]\<rparr>"
  let ?A = "\<lparr>rows = 2, columns = 2, array = [1, 2, 2, 4 :: real]\<rparr>"
  let ?b = "\<lparr>rows = 2, columns = 1, array = [1, 2 :: real]\<rparr>"
  show "xll_matrix_solve lu_solve ?I3 ?b4 = None"
    using solve_fails_iff_shape_mismatch [of lu_solve ?I3 ?b4] by simp
  show "xll_matrix_solve lu_solve ?A23 ?b = None"
    using solve_fails_iff_shape_mismatch [of lu_solve ?A23 ?b] by simp
  have A: "fp_to_eigen ?A = \<lparr>m_rows = 2, m_cols = 2, m_storage = [1, 2, 2, 4]\<rparr>"
    by (simp add: fp_to_eigen_def dense_def upt_rec)
  have b: "fp_to_eigen ?b = \<lparr>m_rows = 2, m_cols = 1, m_storage = [1, 2]\<rparr>"
    by (simp add: fp_to_eigen_def dense_def upt_rec)
  show "xll_matrix_solve lu_solve ?A ?b =
       Some (eigen_to_fp (lu_solve
         \<lparr>m_rows = 2, m_cols = 2, m_storage = [1, 2, 2, 4]\<rparr>
         \<lparr>m_rows = 2, m_cols = 1, m_storage = [1, 2]\<rparr>))"
    using solve_fails_iff_shape_mismatch [of lu_solve ?A ?b] by (simp add: A b del: One_nat_def)
qed

section \<open>Cholesky\<close>





section \<open>QR\<close>

text \<open>
  Claim C10. The QR operation has no dimension check and returns a result for an input
  of any shape. The result has the shape of Eigen's Householder QR storage, which is the
  shape of the input, and it is the upper triangle of that storage: on and above the
  diagonal it has the storage's entries, below the diagonal it has zeros.
\<close>

theorem qr_returns_upper_triangle:
  assumes "m_rows (matrixQR (fp_to_eigen pa)) = rows pa"
    and "m_cols (matrixQR (fp_to_eigen pa)) = columns pa"
  shows "\<exists>fp. xll_matrix_qr matrixQR pa = Some fp \<and>
           rows fp = rows pa \<and> columns fp = columns pa \<and> wf_fp fp \<and>
           (\<forall>i j. i < rows pa \<and> j < columns pa \<longrightarrow>
              fp_at fp i j = (if i \<le> j then coeff (matrixQR (fp_to_eigen pa)) i j else 0))"
proof -
  let ?S = "matrixQR (fp_to_eigen pa)"
  let ?fp = "eigen_to_fp (triangularView_Upper ?S)"
  have res: "xll_matrix_qr matrixQR pa = Some ?fp"
    by (simp add: xll_matrix_qr_def)
  have shape: "rows ?fp = rows pa" "columns ?fp = columns pa"
    using assms by (simp_all add: eigen_to_fp_shape view_shapes)
  have entries: "fp_at ?fp i j = (if i \<le> j then coeff ?S i j else 0)"
    if "i < rows pa" and "j < columns pa" for i j
  proof -
    have "fp_at ?fp i j = coeff (triangularView_Upper ?S) i j"
      using that assms by (intro fp_at_eigen_to_fp) (simp_all add: view_shapes)
    with that assms show ?thesis by (simp add: coeff_triangularView_Upper)
  qed
  from res shape entries wf_eigen_to_fp [of "triangularView_Upper ?S"]
  show ?thesis by blast
qed

theorem qr_returns_upper_triangle_witness:
  "\<exists>fp. xll_matrix_qr (\<lambda>A. \<lparr>m_rows = 3, m_cols = 2, m_storage = [- 5, 7, 8, - 6, 2, 9 :: int]\<rparr>)
          \<lparr>rows = 3, columns = 2, array = [3, 4, 0, 1, 4, 2]\<rparr> = Some fp \<and>
        rows fp = 3 \<and> columns fp = 2 \<and>
        fp_at fp 0 0 = - 5 \<and> fp_at fp 0 1 = - 6 \<and>
        fp_at fp 1 0 = 0 \<and> fp_at fp 1 1 = 2 \<and>
        fp_at fp 2 0 = 0 \<and> fp_at fp 2 1 = 0"
proof -
  let ?S = "\<lparr>m_rows = 3, m_cols = 2, m_storage = [- 5, 7, 8, - 6, 2, 9 :: int]\<rparr>"
  let ?pa = "\<lparr>rows = 3, columns = 2, array = [3, 4, 0, 1, 4, 2 :: int]\<rparr>"
  from qr_returns_upper_triangle [of "\<lambda>A. ?S" ?pa]
  obtain fp where fp: "xll_matrix_qr (\<lambda>A. ?S) ?pa = Some fp" "rows fp = 3" "columns fp = 2"
    "\<forall>i j. i < 3 \<and> j < 2 \<longrightarrow> fp_at fp i j = (if i \<le> j then coeff ?S i j else 0)"
    by auto
  from fp(4) have "fp_at fp 0 0 = - 5" "fp_at fp 0 1 = - 6" "fp_at fp 1 0 = 0"
    "fp_at fp 1 1 = 2" "fp_at fp 2 0 = 0" "fp_at fp 2 1 = 0"
    by (simp_all add: coeff_def)
  with fp(1,2,3) show ?thesis by blast
qed

section \<open>Diagonal\<close>

lemma col_fp_to_eigen:
  assumes "columns pa = 1"
  shows "col (fp_to_eigen pa) 0 = map (\<lambda>i. array pa ! i) [0..<rows pa]"
  using assms by (simp add: col_def fp_to_eigen_shape coeff_fp_to_eigen)

lemma diagonal_fp_to_eigen:
  "diagonal (fp_to_eigen pa) =
     map (\<lambda>i. array pa ! (i * columns pa + i)) [0..<min (rows pa) (columns pa)]"
  by (simp add: diagonal_def fp_to_eigen_shape coeff_fp_to_eigen)

text \<open>
  Claim C7. An input with exactly one column, the \<open>1 \<times> 1\<close> input included, gives the
  \<open>n \<times> n\<close> matrix that has the column on its diagonal and zero elsewhere, \<open>n\<close> being
  the number of rows. Any other input gives its diagonal as a column vector:
  \<open>min rows cols\<close> rows, one column, entry \<open>i\<close> being the input's entry \<open>(i, i)\<close>.
\<close>

theorem diag_convention:
  "(columns pa = 1 \<longrightarrow>
      (\<exists>fp. xll_matrix_diag pa = Some fp \<and> rows fp = rows pa \<and> columns fp = rows pa \<and>
         wf_fp fp \<and>
         (\<forall>i j. i < rows pa \<and> j < rows pa \<longrightarrow>
            fp_at fp i j = (if i = j then fp_at pa i 0 else 0)))) \<and>
   (columns pa \<noteq> 1 \<longrightarrow>
      (\<exists>fp. xll_matrix_diag pa = Some fp \<and> rows fp = min (rows pa) (columns pa) \<and>
         columns fp = 1 \<and> wf_fp fp \<and>
         (\<forall>i. i < min (rows pa) (columns pa) \<longrightarrow> fp_at fp i 0 = fp_at pa i i)))"
proof (intro conjI impI)
  assume one: "columns pa = 1"
  let ?v = "col (fp_to_eigen pa) 0"
  let ?fp = "eigen_to_fp (asDiagonal ?v)"
  have len: "length ?v = rows pa" by (simp add: col_def fp_to_eigen_shape)
  have v: "?v ! i = fp_at pa i 0" if "i < rows pa" for i
    using that one by (simp add: col_fp_to_eigen fp_at_def)
  have res: "xll_matrix_diag pa = Some ?fp"
    using one by (simp add: xll_matrix_diag_def fp_to_eigen_shape)
  have shape: "rows ?fp = rows pa" "columns ?fp = rows pa"
    by (simp_all add: eigen_to_fp_shape view_shapes len)
  have entries: "fp_at ?fp i j = (if i = j then fp_at pa i 0 else 0)"
    if "i < rows pa" and "j < rows pa" for i j
  proof -
    have "fp_at ?fp i j = coeff (asDiagonal ?v) i j"
      using that by (intro fp_at_eigen_to_fp) (simp_all add: view_shapes len)
    also have "\<dots> = (if i = j then ?v ! i else 0)"
      using that by (simp add: coeff_asDiagonal len)
    finally show ?thesis using that by (simp add: v)
  qed
  from res shape entries wf_eigen_to_fp [of "asDiagonal ?v"]
  show "\<exists>fp. xll_matrix_diag pa = Some fp \<and> rows fp = rows pa \<and> columns fp = rows pa \<and>
         wf_fp fp \<and>
         (\<forall>i j. i < rows pa \<and> j < rows pa \<longrightarrow>
            fp_at fp i j = (if i = j then fp_at pa i 0 else 0))"
    by blast
next
  assume more: "columns pa \<noteq> 1"
  let ?d = "diagonal (fp_to_eigen pa)"
  let ?fp = "vector_to_fp ?d"
  have len: "length ?d = min (rows pa) (columns pa)"
    by (simp add: diagonal_fp_to_eigen)
  have res: "xll_matrix_diag pa = Some ?fp"
    using more by (simp add: xll_matrix_diag_def fp_to_eigen_shape)
  have shape: "rows ?fp = min (rows pa) (columns pa)" "columns ?fp = 1"
    by (simp_all add: vector_to_fp_def len)
  have wf: "wf_fp ?fp" by (simp add: wf_fp_def vector_to_fp_def)
  have entries: "fp_at ?fp i 0 = fp_at pa i i" if "i < min (rows pa) (columns pa)" for i
    using that by (simp add: fp_at_def vector_to_fp_def len) (simp add: diagonal_fp_to_eigen)
  from res shape wf entries
  show "\<exists>fp. xll_matrix_diag pa = Some fp \<and> rows fp = min (rows pa) (columns pa) \<and>
         columns fp = 1 \<and> wf_fp fp \<and>
         (\<forall>i. i < min (rows pa) (columns pa) \<longrightarrow> fp_at fp i 0 = fp_at pa i i)"
    by blast
qed

theorem diag_convention_witness:
  "xll_matrix_diag \<lparr>rows = 3, columns = 1, array = [7, 8, 9 :: int]\<rparr> =
     Some \<lparr>rows = 3, columns = 3, array = [7, 0, 0, 0, 8, 0, 0, 0, 9]\<rparr> \<and>
   xll_matrix_diag \<lparr>rows = 1, columns = 1, array = [5 :: int]\<rparr> =
     Some \<lparr>rows = 1, columns = 1, array = [5]\<rparr> \<and>
   xll_matrix_diag \<lparr>rows = 2, columns = 3, array = [1, 2, 3, 4, 5, 6 :: int]\<rparr> =
     Some \<lparr>rows = 2, columns = 1, array = [1, 5]\<rparr> \<and>
   (\<exists>fp. xll_matrix_diag \<lparr>rows = 3, columns = 1, array = [7, 8, 9 :: int]\<rparr> = Some fp \<and>
      rows fp = 3 \<and> columns fp = 3 \<and> fp_at fp 1 1 = 8 \<and> fp_at fp 1 2 = 0) \<and>
   (\<exists>fp. xll_matrix_diag \<lparr>rows = 2, columns = 3, array = [1, 2, 3, 4, 5, 6 :: int]\<rparr> = Some fp \<and>
      rows fp = 2 \<and> columns fp = 1 \<and> fp_at fp 1 0 = 5)"
proof -
  let ?v = "\<lparr>rows = 3, columns = 1, array = [7, 8, 9 :: int]\<rparr>"
  let ?one = "\<lparr>rows = 1, columns = 1, array = [5 :: int]\<rparr>"
  let ?A = "\<lparr>rows = 2, columns = 3, array = [1, 2, 3, 4, 5, 6 :: int]\<rparr>"
  have 1: "xll_matrix_diag ?v = Some \<lparr>rows = 3, columns = 3, array = [7, 0, 0, 0, 8, 0, 0, 0, 9]\<rparr>"
    by (simp add: xll_matrix_diag_def fp_to_eigen_def col_def asDiagonal_def eigen_to_fp_def
        dense_def coeff_def upt_rec)
  have 2: "xll_matrix_diag ?one = Some \<lparr>rows = 1, columns = 1, array = [5]\<rparr>"
    by (simp add: xll_matrix_diag_def fp_to_eigen_def col_def asDiagonal_def eigen_to_fp_def
        dense_def coeff_def upt_rec)
  have 3: "xll_matrix_diag ?A = Some \<lparr>rows = 2, columns = 1, array = [1, 5]\<rparr>"
    by (simp add: xll_matrix_diag_def fp_to_eigen_def diagonal_def vector_to_fp_def
        dense_def coeff_def upt_rec)
  from diag_convention [of ?v]
  obtain fp where fp: "xll_matrix_diag ?v = Some fp" "rows fp = 3" "columns fp = 3"
    "\<forall>i j. i < 3 \<and> j < 3 \<longrightarrow> fp_at fp i j = (if i = j then fp_at ?v i 0 else 0)"
    by auto
  from fp(4) [rule_format, of 1 1] fp(4) [rule_format, of 1 2]
  have "fp_at fp 1 1 = 8" "fp_at fp 1 2 = 0" by (simp_all add: fp_at_def)
  with fp have 4: "\<exists>fp. xll_matrix_diag ?v = Some fp \<and>
      rows fp = 3 \<and> columns fp = 3 \<and> fp_at fp 1 1 = 8 \<and> fp_at fp 1 2 = 0"
    by blast
  from diag_convention [of ?A]
  obtain fq where fq: "xll_matrix_diag ?A = Some fq" "rows fq = 2" "columns fq = 1"
    "\<forall>i. i < 2 \<longrightarrow> fp_at fq i 0 = fp_at ?A i i"
    by auto
  from fq(4) [rule_format, of 1] have "fp_at fq 1 0 = 5" by (simp add: fp_at_def)
  with fq have 5: "\<exists>fp. xll_matrix_diag ?A = Some fp \<and>
      rows fp = 2 \<and> columns fp = 1 \<and> fp_at fp 1 0 = 5"
    by blast
  from 1 2 3 4 5 show ?thesis by (intro conjI)
qed

section \<open>Generators\<close>

lemma identity_result:
  fixes d :: nat
  shows "\<exists>fp :: 'a::{zero,one} FP12. fp = eigen_to_fp (Identity d d) \<and>
           rows fp = d \<and> columns fp = d \<and> wf_fp fp \<and>
           (\<forall>i j. i < rows fp \<and> j < columns fp \<longrightarrow> fp_at fp i j = (if i = j then 1 else 0))"
proof -
  let ?fp = "eigen_to_fp (Identity d d) :: 'a FP12"
  have shape: "rows ?fp = d" "columns ?fp = d"
    by (simp_all add: eigen_to_fp_shape view_shapes)
  have "fp_at ?fp i j = (if i = j then 1 else 0)" if "i < d" and "j < d" for i j
  proof -
    have "fp_at ?fp i j = coeff (Identity d d :: 'a MatrixXd) i j"
      using that by (intro fp_at_eigen_to_fp) (simp_all add: view_shapes)
    with that show ?thesis by (simp add: coeff_Identity)
  qed
  with shape wf_eigen_to_fp [of "Identity d d :: 'a MatrixXd"] show ?thesis by simp
qed

lemma zeros_result:
  fixes r c :: nat
  shows "\<exists>fp :: 'a::zero FP12. fp = eigen_to_fp (Zero r c) \<and>
           rows fp = r \<and> columns fp = c \<and> wf_fp fp \<and>
           (\<forall>i j. i < rows fp \<and> j < columns fp \<longrightarrow> fp_at fp i j = 0)"
proof -
  let ?fp = "eigen_to_fp (Zero r c) :: 'a FP12"
  have shape: "rows ?fp = r" "columns ?fp = c"
    by (simp_all add: eigen_to_fp_shape view_shapes)
  have "fp_at ?fp i j = 0" if "i < r" and "j < c" for i j
  proof -
    have "fp_at ?fp i j = coeff (Zero r c :: 'a MatrixXd) i j"
      using that by (intro fp_at_eigen_to_fp) (simp_all add: view_shapes)
    with that show ?thesis by (simp add: coeff_Zero)
  qed
  with shape wf_eigen_to_fp [of "Zero r c :: 'a MatrixXd"] show ?thesis by simp
qed

text \<open>
  Claim C8. The identity generator returns the failure value exactly when its argument,
  cut to an integer, is not in \<open>(0, 10000]\<close>; otherwise it returns the square matrix of
  that size with one on the diagonal and zero elsewhere. The zeros generator returns the
  failure value exactly when one of its two arguments, cut to an integer, is not in
  \<open>(0, 10000]\<close>; otherwise it returns the matrix of that shape with every entry zero.
\<close>

theorem generators_bounded:
  "((xll_matrix_identity n :: 'a::{zero,one} FP12 option) = None \<longleftrightarrow>
      static_cast_int n \<le> 0 \<or> 10000 < static_cast_int n) \<and>
   (0 < static_cast_int n \<and> static_cast_int n \<le> 10000 \<longrightarrow>
      (\<exists>fp :: 'a FP12. xll_matrix_identity n = Some fp \<and>
         int (rows fp) = static_cast_int n \<and> int (columns fp) = static_cast_int n \<and> wf_fp fp \<and>
         (\<forall>i j. i < rows fp \<and> j < columns fp \<longrightarrow> fp_at fp i j = (if i = j then 1 else 0)))) \<and>
   ((xll_matrix_zeros r c :: 'a FP12 option) = None \<longleftrightarrow>
      static_cast_int r \<le> 0 \<or> static_cast_int c \<le> 0 \<or>
      10000 < static_cast_int r \<or> 10000 < static_cast_int c) \<and>
   (0 < static_cast_int r \<and> static_cast_int r \<le> 10000 \<and>
    0 < static_cast_int c \<and> static_cast_int c \<le> 10000 \<longrightarrow>
      (\<exists>fp :: 'a FP12. xll_matrix_zeros r c = Some fp \<and>
         int (rows fp) = static_cast_int r \<and> int (columns fp) = static_cast_int c \<and> wf_fp fp \<and>
         (\<forall>i j. i < rows fp \<and> j < columns fp \<longrightarrow> fp_at fp i j = 0)))"
proof (intro conjI impI)
  show "(xll_matrix_identity n :: 'a FP12 option) = None \<longleftrightarrow>
      static_cast_int n \<le> 0 \<or> 10000 < static_cast_int n"
    by (simp add: xll_matrix_identity_def Let_def)
next
  assume ok: "0 < static_cast_int n \<and> static_cast_int n \<le> 10000"
  then have res: "(xll_matrix_identity n :: 'a FP12 option) =
      Some (eigen_to_fp (Identity (nat (static_cast_int n)) (nat (static_cast_int n))))"
    by (simp add: xll_matrix_identity_def Let_def)
  from ok have d: "int (nat (static_cast_int n)) = static_cast_int n" by simp
  from identity_result [of "nat (static_cast_int n)", where ?'a = 'a] res d
  show "\<exists>fp :: 'a FP12. xll_matrix_identity n = Some fp \<and>
         int (rows fp) = static_cast_int n \<and> int (columns fp) = static_cast_int n \<and> wf_fp fp \<and>
         (\<forall>i j. i < rows fp \<and> j < columns fp \<longrightarrow> fp_at fp i j = (if i = j then 1 else 0))"
    by auto
next
  show "(xll_matrix_zeros r c :: 'a FP12 option) = None \<longleftrightarrow>
      static_cast_int r \<le> 0 \<or> static_cast_int c \<le> 0 \<or>
      10000 < static_cast_int r \<or> 10000 < static_cast_int c"
    by (simp add: xll_matrix_zeros_def Let_def)
next
  assume ok: "0 < static_cast_int r \<and> static_cast_int r \<le> 10000 \<and>
    0 < static_cast_int c \<and> static_cast_int c \<le> 10000"
  then have res: "(xll_matrix_zeros r c :: 'a FP12 option) =
      Some (eigen_to_fp (Zero (nat (static_cast_int r)) (nat (static_cast_int c))))"
    by (simp add: xll_matrix_zeros_def Let_def)
  from ok have d: "int (nat (static_cast_int r)) = static_cast_int r"
    "int (nat (static_cast_int c)) = static_cast_int c" by simp_all
  from zeros_result [of "nat (static_cast_int r)" "nat (static_cast_int c)", where ?'a = 'a] res d
  show "\<exists>fp :: 'a FP12. xll_matrix_zeros r c = Some fp \<and>
         int (rows fp) = static_cast_int r \<and> int (columns fp) = static_cast_int c \<and> wf_fp fp \<and>
         (\<forall>i j. i < rows fp \<and> j < columns fp \<longrightarrow> fp_at fp i j = 0)"
    by auto
qed

theorem generators_bounded_witness:
  "(xll_matrix_identity 0 :: int FP12 option) = None \<and>
   (xll_matrix_identity 10001 :: int FP12 option) = None \<and>
   (xll_matrix_identity (- 2) :: int FP12 option) = None \<and>
   (xll_matrix_zeros 0 5 :: int FP12 option) = None \<and>
   (xll_matrix_zeros 5 (1 / 2) :: int FP12 option) = None \<and>
   (\<exists>fp :: int FP12. xll_matrix_identity 10000 = Some fp \<and> rows fp = 10000 \<and>
      columns fp = 10000 \<and> fp_at fp 9999 9999 = 1 \<and> fp_at fp 9999 0 = 0) \<and>
   (xll_matrix_identity 3 :: int FP12 option) =
     Some \<lparr>rows = 3, columns = 3, array = [1, 0, 0, 0, 1, 0, 0, 0, 1]\<rparr> \<and>
   (xll_matrix_identity (37 / 10) :: int FP12 option) =
     Some \<lparr>rows = 3, columns = 3, array = [1, 0, 0, 0, 1, 0, 0, 0, 1]\<rparr> \<and>
   (xll_matrix_zeros 2 3 :: int FP12 option) =
     Some \<lparr>rows = 2, columns = 3, array = [0, 0, 0, 0, 0, 0]\<rparr>"
proof -
  have c0: "static_cast_int 0 = 0" "static_cast_int 10001 = 10001" "static_cast_int (- 2) = - 2"
    "static_cast_int 5 = 5" "static_cast_int (1 / 2) = 0" "static_cast_int 10000 = 10000"
    by (simp_all add: static_cast_int_def)
  have c1: "static_cast_int 3 = 3" "static_cast_int (37 / 10) = 3" "static_cast_int 2 = 2"
    by (simp_all add: static_cast_int_def)
  have 1: "(xll_matrix_identity 0 :: int FP12 option) = None"
    using generators_bounded [of 0 0 0, where ?'a = int] by (simp add: c0)
  have 2: "(xll_matrix_identity 10001 :: int FP12 option) = None"
    using generators_bounded [of 10001 0 0, where ?'a = int] by (simp add: c0)
  have 3: "(xll_matrix_identity (- 2) :: int FP12 option) = None"
    using generators_bounded [of "- 2" 0 0, where ?'a = int] by (simp add: c0)
  have 4: "(xll_matrix_zeros 0 5 :: int FP12 option) = None"
    using generators_bounded [of 0 0 5, where ?'a = int] by (simp add: c0)
  have 5: "(xll_matrix_zeros 5 (1 / 2) :: int FP12 option) = None"
    using generators_bounded [of 0 5 "1 / 2", where ?'a = int] by (simp add: c0)
  from generators_bounded [of 10000 0 0, where ?'a = int]
  obtain fp :: "int FP12" where fp: "xll_matrix_identity 10000 = Some fp"
    "int (rows fp) = 10000" "int (columns fp) = 10000"
    "\<forall>i j. i < rows fp \<and> j < columns fp \<longrightarrow> fp_at fp i j = (if i = j then 1 else 0)"
    by (auto simp: c0)
  from fp(2,3) have shape: "rows fp = 10000" "columns fp = 10000" by simp_all
  from fp(4) [rule_format, of 9999 9999] fp(4) [rule_format, of 9999 0] shape
  have "fp_at fp 9999 9999 = 1" "fp_at fp 9999 0 = 0" by simp_all
  with fp(1) shape have 6: "\<exists>fp :: int FP12. xll_matrix_identity 10000 = Some fp \<and>
      rows fp = 10000 \<and> columns fp = 10000 \<and> fp_at fp 9999 9999 = 1 \<and> fp_at fp 9999 0 = 0"
    by blast
  have 7: "(xll_matrix_identity 3 :: int FP12 option) =
     Some \<lparr>rows = 3, columns = 3, array = [1, 0, 0, 0, 1, 0, 0, 0, 1]\<rparr>"
    by (simp add: xll_matrix_identity_def c1 Identity_def eigen_to_fp_def dense_def coeff_def upt_rec)
  have 8: "(xll_matrix_identity (37 / 10) :: int FP12 option) =
     Some \<lparr>rows = 3, columns = 3, array = [1, 0, 0, 0, 1, 0, 0, 0, 1]\<rparr>"
    by (simp add: xll_matrix_identity_def c1 Identity_def eigen_to_fp_def dense_def coeff_def upt_rec)
  have 9: "(xll_matrix_zeros 2 3 :: int FP12 option) =
     Some \<lparr>rows = 2, columns = 3, array = [0, 0, 0, 0, 0, 0]\<rparr>"
    by (simp add: xll_matrix_zeros_def c1 Zero_def eigen_to_fp_def dense_def coeff_def upt_rec)
  from 1 2 3 4 5 6 7 8 9 show ?thesis by (intro conjI)
qed

section \<open>Full singular value decomposition\<close>















lemma svd_of_diagonal_shape: "thin_svd_shape A (svd_of_diagonal A)"
  by (simp add: thin_svd_shape_def svd_of_diagonal_def Let_def view_wf view_shapes diagonal_def)




section \<open>Pseudoinverse\<close>

lemma maxCoeff_nonempty: "xs \<noteq> [] \<Longrightarrow> \<exists>v. maxCoeff xs = Some v"
  by (cases xs) simp_all

lemma foldl_maxi_Max:
  fixes x :: "'a::linorder"
  shows "foldl maxi x xs = Max (set (x # xs))"
proof (induction xs arbitrary: x)
  case Nil
  then show ?case by simp
next
  case (Cons y ys)
  have "maxi x y = max x y" by (auto simp: maxi_def max_def)
  then have "foldl maxi x (y # ys) = Max (set (max x y # ys))"
    using Cons.IH [of "max x y"] by simp
  also have "\<dots> = Max (set (x # y # ys))"
    by (cases "ys = []") (simp_all add: max.assoc)
  finally show ?case .
qed

lemma maxCoeff_linorder:
  fixes xs :: "'a::linorder list"
  shows "xs \<noteq> [] \<Longrightarrow> maxCoeff xs = Some (Max (set xs))"
  by (cases xs) (simp_all only: maxCoeff.simps foldl_maxi_Max, simp)

lemma singularValuesInv_length: "length (singularValuesInv tolerance sv) = length sv"
  by (simp add: singularValuesInv_def)

lemma singularValuesInv_nth:
  "i < length sv \<Longrightarrow>
   singularValuesInv tolerance sv ! i = (if tolerance < sv ! i then 1 / sv ! i else 0)"
  by (simp add: singularValuesInv_def)

lemma coeff_times_diagonal:
  "i < m_rows M \<Longrightarrow> j < length d \<Longrightarrow> coeff (times_diagonal M d) i j = coeff M i j * d ! j"
  by (simp add: times_diagonal_def coeff_dense)

text \<open>
  Claim C5, as amended. For an input with at least one row and one column the
  pseudoinverse operation returns a result: Eigen's product of \<open>V \<cdot> \<Sigma>\<^sup>+\<close> with the
  transpose of \<open>U\<close>, written out row by row, where \<open>\<Sigma>\<^sup>+\<close> scales column \<open>j\<close> of \<open>V\<close> by
  the \<open>j\<close>-th inverted singular value. With the tolerance
  \<open>\<epsilon> \<cdot> max(rows, cols) \<cdot> max |\<sigma>|\<close>, a singular value above the tolerance is inverted to
  its reciprocal and every other one, a value equal to the tolerance included, to zero.
  The hypothesis is the shape of a thin decomposition, which Eigen provides.
\<close>

theorem pinv_from_svd:
  assumes "svd = jacobiSvd (fp_to_eigen pa)"
    and "thin_svd_shape (fp_to_eigen pa) svd"
    and "0 < rows pa" and "0 < columns pa"
  shows "\<exists>fp max_sv sinv.
           xll_matrix_pinv epsilon of_Index jacobiSvd product pa = Some fp \<and>
           maxCoeff (map abs (singularValues svd)) = Some max_sv \<and>
           length sinv = min (rows pa) (columns pa) \<and>
           (\<forall>i. i < length sinv \<longrightarrow>
              sinv ! i =
                (if epsilon * of_Index (max (rows pa) (columns pa)) * max_sv < singularValues svd ! i
                 then 1 / singularValues svd ! i else 0)) \<and>
           (\<forall>i j. i < columns pa \<and> j < length sinv \<longrightarrow>
              coeff (times_diagonal (matrixV svd) sinv) i j = coeff (matrixV svd) i j * sinv ! j) \<and>
           (\<forall>i j. i < length sinv \<and> j < rows pa \<longrightarrow>
              coeff (transpose_m (matrixU svd)) i j = coeff (matrixU svd) j i) \<and>
           fp = eigen_to_fp
                  (product (times_diagonal (matrixV svd) sinv) (transpose_m (matrixU svd))) \<and>
           (wf_matrix (product (times_diagonal (matrixV svd) sinv) (transpose_m (matrixU svd)))
              \<longrightarrow> fp_to_eigen fp =
                    product (times_diagonal (matrixV svd) sinv) (transpose_m (matrixU svd)))"
proof -
  let ?sv = "singularValues svd"
  let ?k = "min (rows pa) (columns pa)"
  from assms(2) have shape: "length ?sv = ?k"
    "m_rows (matrixU svd) = rows pa" "m_cols (matrixU svd) = ?k"
    "m_rows (matrixV svd) = columns pa" "m_cols (matrixV svd) = ?k"
    by (simp_all add: thin_svd_shape_def Let_def fp_to_eigen_shape)
  from assms(3,4) shape(1) have "map abs ?sv \<noteq> []" by auto
  then obtain max_sv where mx: "maxCoeff (map abs ?sv) = Some max_sv"
    using maxCoeff_nonempty by blast
  let ?tol = "epsilon * of_Index (max (rows pa) (columns pa)) * max_sv"
  let ?sinv = "singularValuesInv ?tol ?sv"
  let ?P = "product (times_diagonal (matrixV svd) ?sinv) (transpose_m (matrixU svd))"
  have res: "xll_matrix_pinv epsilon of_Index jacobiSvd product pa = Some (eigen_to_fp ?P)"
    using assms(1) mx by (simp add: xll_matrix_pinv_def Let_def fp_to_eigen_shape)
  have len: "length ?sinv = ?k" by (simp add: singularValuesInv_length shape)
  have rule: "\<forall>i. i < length ?sinv \<longrightarrow>
      ?sinv ! i = (if ?tol < ?sv ! i then 1 / ?sv ! i else 0)"
    by (simp add: singularValuesInv_nth singularValuesInv_length)
  have scale: "\<forall>i j. i < columns pa \<and> j < length ?sinv \<longrightarrow>
      coeff (times_diagonal (matrixV svd) ?sinv) i j = coeff (matrixV svd) i j * ?sinv ! j"
    by (simp add: coeff_times_diagonal shape)
  have tr: "\<forall>i j. i < length ?sinv \<and> j < rows pa \<longrightarrow>
      coeff (transpose_m (matrixU svd)) i j = coeff (matrixU svd) j i"
    by (simp add: coeff_transpose_m shape len)
  have rt: "wf_matrix ?P \<longrightarrow> fp_to_eigen (eigen_to_fp ?P) = ?P"
    by (simp add: fp_to_eigen_eigen_to_fp)
  from res mx len rule scale tr rt show ?thesis
    by (intro exI [of _ "eigen_to_fp ?P"] exI [of _ max_sv] exI [of _ ?sinv]) blast
qed

theorem pinv_from_svd_witness:
  "thin_svd_shape (fp_to_eigen \<lparr>rows = 2, columns = 3, array = [4, 0, 0, 0, 2, 0 :: real]\<rparr>)
     (svd_of_diagonal (fp_to_eigen \<lparr>rows = 2, columns = 3, array = [4, 0, 0, 0, 2, 0 :: real]\<rparr>)) \<and>
   xll_matrix_pinv (1 / 2 ^ 52) real svd_of_diagonal exact_product
     \<lparr>rows = 2, columns = 3, array = [4, 0, 0, 0, 2, 0 :: real]\<rparr> =
     Some \<lparr>rows = 3, columns = 2, array = [1 / 4, 0, 0, 1 / 2, 0, 0]\<rparr> \<and>
   (\<exists>max_sv. maxCoeff (map abs (singularValues (svd_of_diagonal
       (fp_to_eigen \<lparr>rows = 2, columns = 3, array = [4, 0, 0, 0, 2, 0 :: real]\<rparr>)))) = Some max_sv)"
proof -
  let ?pa = "\<lparr>rows = 2, columns = 3, array = [4, 0, 0, 0, 2, 0 :: real]\<rparr>"
  have shape: "thin_svd_shape (fp_to_eigen ?pa) (svd_of_diagonal (fp_to_eigen ?pa))"
    by (rule svd_of_diagonal_shape)
  have pos: "0 < rows ?pa" "0 < columns ?pa" by simp_all
  from pinv_from_svd [where jacobiSvd = svd_of_diagonal and pa = ?pa and epsilon = "1 / 2 ^ 52"
      and of_Index = real and product = exact_product, OF refl shape pos]
  obtain fp max_sv where
    fp: "xll_matrix_pinv (1 / 2 ^ 52) real svd_of_diagonal exact_product ?pa = Some fp"
    and mx: "maxCoeff (map abs (singularValues (svd_of_diagonal (fp_to_eigen ?pa)))) = Some max_sv"
    by blast
  have direct: "xll_matrix_pinv (1 / 2 ^ 52) real svd_of_diagonal exact_product ?pa =
      Some \<lparr>rows = 3, columns = 2, array = [1 / 4, 0, 0, 1 / 2, 0, 0]\<rparr>"
    by code_simp
  from fp direct mx shape show ?thesis by blast
qed

text \<open>
  The claim as stated fails where a singular value equals the tolerance. The diagonal
  matrix with entries \<open>1\<close> and \<open>2\<^sup>-\<^sup>5\<^sup>1\<close> has these as its singular values, and its tolerance
  is \<open>2\<^sup>-\<^sup>5\<^sup>2 \<cdot> 2 \<cdot> 1 = 2\<^sup>-\<^sup>5\<^sup>1\<close>. The smaller singular value is not below the tolerance,
  so the claim has it replaced by its reciprocal \<open>2\<^sup>5\<^sup>1\<close>; the code compares with
  \<open>>\<close> and replaces it by zero. (The zero matrix is the everyday case: its singular
  values and its tolerance are all zero, and the code returns the zero matrix.)
\<close>

theorem pinv_tolerance_counterexample:
  "xll_matrix_pinv (1 / 2 ^ 52) real svd_of_diagonal exact_product
     \<lparr>rows = 2, columns = 2, array = [1, 0, 0, 1 / 2 ^ 51 :: real]\<rparr> =
     Some \<lparr>rows = 2, columns = 2, array = [1, 0, 0, 0]\<rparr> \<and>
   pinv_spec (1 / 2 ^ 52) real svd_of_diagonal exact_product
     \<lparr>rows = 2, columns = 2, array = [1, 0, 0, 1 / 2 ^ 51 :: real]\<rparr> =
     Some \<lparr>rows = 2, columns = 2, array = [1, 0, 0, 2 ^ 51]\<rparr>"
proof
  show "xll_matrix_pinv (1 / 2 ^ 52) real svd_of_diagonal exact_product
     \<lparr>rows = 2, columns = 2, array = [1, 0, 0, 1 / 2 ^ 51 :: real]\<rparr> =
     Some \<lparr>rows = 2, columns = 2, array = [1, 0, 0, 0]\<rparr>"
    by code_simp
  show "pinv_spec (1 / 2 ^ 52) real svd_of_diagonal exact_product
     \<lparr>rows = 2, columns = 2, array = [1, 0, 0, 1 / 2 ^ 51 :: real]\<rparr> =
     Some \<lparr>rows = 2, columns = 2, array = [1, 0, 0, 2 ^ 51]\<rparr>"
    by code_simp
qed

section \<open>Failure values\<close>








end
